theory Spec2Isabelle
  imports Complex_Main "HOL-Library.Char_ord" "HOL-Library.List_Lexorder"
begin

section \<open>Data model\<close>

text \<open>
  The program keeps one table, the file \<^verbatim>\<open>fitness_tracker.csv\<close>, and reads it into a
  pandas DataFrame. A row of the frame with all eight columns filled is a workout: the
  record below, one field per column of the header that \<^verbatim>\<open>initialize_file\<close> writes.
  Numbers are modelled as exact reals: rounding of the 64-bit floats is outside the model.
  A calendar date is the triple that \<^verbatim>\<open>datetime.date\<close> holds.
\<close>

record date =
  year :: int
  month :: int
  day :: int

text \<open>
  The helpers of CPython's \<^verbatim>\<open>datetime\<close>: leap years, the days before a year and before
  a month, and the proleptic Gregorian ordinal of a date (1 for 0001-01-01).
\<close>

definition is_leap :: "int \<Rightarrow> bool" where
  "is_leap y = (y mod 4 = 0 \<and> (y mod 100 \<noteq> 0 \<or> y mod 400 = 0))"

definition days_before_year :: "int \<Rightarrow> int" where
  "days_before_year y = (let y' = y - 1 in y' * 365 + y' div 4 - y' div 100 + y' div 400)"

definition days_in_month :: "int \<Rightarrow> int \<Rightarrow> int" where
  "days_in_month y m =
     (if m = 2 \<and> is_leap y then 29
      else if 1 \<le> m \<and> m \<le> 12
        then [31, 28, 31, 30, 31, 30, 31, 31, 30, 31, 30, 31] ! nat (m - 1)
      else 0)"

definition days_before_month :: "int \<Rightarrow> int \<Rightarrow> int" where
  "days_before_month y m =
     (if 1 \<le> m \<and> m \<le> 12
        then [0, 31, 59, 90, 120, 151, 181, 212, 243, 273, 304, 334] ! nat (m - 1)
      else 0) + (if m > 2 \<and> is_leap y then 1 else 0)"

definition valid_date :: "date \<Rightarrow> bool" where
  "valid_date d =
     (1 \<le> year d \<and> year d \<le> 9999 \<and> 1 \<le> month d \<and> month d \<le> 12 \<and>
      1 \<le> day d \<and> day d \<le> days_in_month (year d) (month d))"

definition ymd2ord :: "date \<Rightarrow> int" where
  "ymd2ord d = days_before_year (year d) + days_before_month (year d) (month d) + day d"

record workout =
  Date :: date
  Workout_Type :: string
  Duration :: real
  Calories_Burned :: real
  Age :: real
  Gender :: string
  Heart_Rate :: real
  Body_Temperature :: real

section \<open>Predictor: \<^verbatim>\<open>train_model\<close> and the adjusted prediction\<close>

text \<open>
  \<^verbatim>\<open>LinearRegression().fit(X, y)\<close> with one feature: scikit-learn centres both columns on
  their means, solves the least-squares problem on the centred data (the minimum-norm
  solution, so the slope is 0 when every \<open>x\<close> is the same) and sets the intercept to
  \<open>mean y - mean X * coef\<close>. \<^verbatim>\<open>model.predict([[d]])[0]\<close> is \<open>d * coef + intercept\<close>.
\<close>

record linear_regression =
  coef :: real
  intercept :: real

definition mean :: "real list \<Rightarrow> real" where
  "mean xs = sum_list xs / real (length xs)"

definition fit :: "real list \<Rightarrow> real list \<Rightarrow> linear_regression" where
  "fit X y =
     (let X_offset = mean X;
          y_offset = mean y;
          sxx = (\<Sum>x\<leftarrow>X. (x - X_offset) * (x - X_offset));
          sxy = (\<Sum>(x, v)\<leftarrow>zip X y. (x - X_offset) * (v - y_offset));
          c = (if sxx = 0 then 0 else sxy / sxx)
      in \<lparr>coef = c, intercept = y_offset - X_offset * c\<rparr>)"

definition predict :: "linear_regression \<Rightarrow> real \<Rightarrow> real" where
  "predict model d = d * coef model + intercept model"

text \<open>
  \<^verbatim>\<open>train_model\<close> (lines 56-63) returns \<^verbatim>\<open>(None, None)\<close> on fewer than two rows, and
  the fitted model with its feature column otherwise.
\<close>

definition train_model :: "workout list \<Rightarrow> (linear_regression \<times> real list) option" where
  "train_model data =
     (if length data < 2 then None
      else let X = map Duration data;
               y = map Calories_Burned data
           in Some (fit X y, X))"

text \<open>
  The adjustment of the base prediction, lines 334-344 of \<^verbatim>\<open>main\<close>: three assignments
  \<^verbatim>\<open>base_calories *= k\<close>, each under its own \<^verbatim>\<open>if\<close>, in this order.
\<close>

definition predict_adjusted ::
  "linear_regression \<Rightarrow> real \<Rightarrow> string \<Rightarrow> real \<Rightarrow> real \<Rightarrow> real" where
  "predict_adjusted model duration gender heart_rate bmi =
     (let base_calories = predict model duration;
          base_calories = (if gender = ''Male'' then base_calories * 1.2 else base_calories);
          base_calories = (if heart_rate > 120 then base_calories * 1.15 else base_calories);
          base_calories = (if bmi > 25 then base_calories * 0.9 else base_calories)
      in base_calories)"

text \<open>
  The Predictions page, lines 330-344: no prediction (the warning branch) when
  \<^verbatim>\<open>train_model\<close> gave no model.
\<close>

definition predicted_calories ::
  "workout list \<Rightarrow> real \<Rightarrow> string \<Rightarrow> real \<Rightarrow> real \<Rightarrow> real option" where
  "predicted_calories data duration gender heart_rate bmi =
     (case train_model data of
        None \<Rightarrow> None
      | Some (model, X) \<Rightarrow> Some (predict_adjusted model duration gender heart_rate bmi))"

text \<open>The sum of squared residuals of a line on the rows, the quantity least squares minimises.\<close>

definition residual_sum_squares :: "linear_regression \<Rightarrow> workout list \<Rightarrow> real" where
  "residual_sum_squares model data =
     (\<Sum>r\<leftarrow>data. (Calories_Burned r - predict model (Duration r)) *
                 (Calories_Burned r - predict model (Duration r)))"

section \<open>Record store: the table file\<close>

text \<open>
  The file is a sequence of lines, each a sequence of cells; \<open>None\<close> is the state in
  which the file does not exist. A cell is the value \<^verbatim>\<open>csv.writer\<close> was given: a string
  or a number. How the csv text spells a number or quotes a string, and how pandas reads
  such text back (its type inference, its markers for missing values), is outside the
  model: a cell read is the cell written. The one text format the source itself fixes,
  the \<^verbatim>\<open>%Y-%m-%d\<close> date, is modelled as text. A character stands for a code point
  below 256.
\<close>

datatype cell = Text string | Number real | Timestamp date

type_synonym line = "cell list"

type_synonym csv_file = "line list option"

record dataframe =
  columns :: "cell list"
  rows :: "cell list list"

datatype error = FileNotFoundError | EmptyDataError | ParserError | KeyError | ValueError
  | IndexError

definition HEADER :: "string list" where
  "HEADER = [''Date'', ''Workout Type'', ''Duration (mins)'', ''Calories Burned'',
             ''Age'', ''Gender'', ''Heart Rate'', ''Body Temperature'']"

text \<open>
  \<^verbatim>\<open>initialize_file\<close> (lines 24-31): mode \<^verbatim>\<open>'x'\<close> creates the file and fails when it
  exists; the failure is swallowed.
\<close>

definition initialize_file :: "csv_file \<Rightarrow> csv_file" where
  "initialize_file f = (case f of None \<Rightarrow> Some [map Text HEADER] | Some ls \<Rightarrow> Some ls)"

text \<open>
  \<^verbatim>\<open>str.strip()\<close> removes the leading and the trailing whitespace; below 256 the
  characters \<^verbatim>\<open>str.isspace\<close> accepts are 9 to 13, 28 to 32, 133 and 160.
\<close>

definition isspace :: "char \<Rightarrow> bool" where
  "isspace c =
     (let n = (of_char c :: nat)
      in (9 \<le> n \<and> n \<le> 13) \<or> (28 \<le> n \<and> n \<le> 32) \<or> n = 133 \<or> n = 160)"

definition strip :: "string \<Rightarrow> string" where
  "strip s = rev (dropWhile isspace (rev (dropWhile isspace s)))"

text \<open>
  \<^verbatim>\<open>strftime("%Y-%m-%d")\<close>: the year in four digits, month and day in two, each padded
  with zeros.
\<close>

definition digit_char :: "int \<Rightarrow> char" where
  "digit_char n = ''0123456789'' ! nat n"

fun zero_padded :: "nat \<Rightarrow> int \<Rightarrow> string" where
  "zero_padded 0 n = []"
| "zero_padded (Suc k) n = zero_padded k (n div 10) @ [digit_char (n mod 10)]"

definition strftime :: "date \<Rightarrow> string" where
  "strftime d =
     zero_padded 4 (year d) @ ''-'' @ zero_padded 2 (month d) @ ''-'' @ zero_padded 2 (day d)"

text \<open>
  \<^verbatim>\<open>log_workout\<close> (lines 34-44). The date the system clock gives, \<^verbatim>\<open>datetime.date.today()\<close>,
  is the argument \<open>today\<close>. Mode \<^verbatim>\<open>'a'\<close> creates the file when it does not exist. The
  result is the file afterwards and the value returned.
\<close>

definition log_workout ::
  "date \<Rightarrow> string \<Rightarrow> real \<Rightarrow> real \<Rightarrow> real \<Rightarrow> string \<Rightarrow> real \<Rightarrow> real \<Rightarrow> csv_file \<Rightarrow> csv_file \<times> bool" where
  "log_workout today workout_type duration calories age gender heart_rate body_temp f =
     (if strip workout_type = [] then (f, False)
      else let date = strftime today;
               row = [Text date, Text workout_type, Number duration, Number calories,
                      Number age, Text gender, Number heart_rate, Number body_temp]
           in (Some ((case f of None \<Rightarrow> [] | Some ls \<Rightarrow> ls) @ [row]), True))"

text \<open>
  The submit branch of the Log Workout page (lines 245-263 of \<^verbatim>\<open>main\<close>), the only call
  of \<^verbatim>\<open>log_workout\<close>: \<^verbatim>\<open>all([workout_type, duration > 0, calories > 0, age > 0,
  heart_rate > 0])\<close> guards it.
\<close>

definition submit_workout ::
  "date \<Rightarrow> string \<Rightarrow> real \<Rightarrow> real \<Rightarrow> real \<Rightarrow> string \<Rightarrow> real \<Rightarrow> real \<Rightarrow> csv_file \<Rightarrow> csv_file \<times> bool" where
  "submit_workout today workout_type duration calories age gender heart_rate body_temp f =
     (if workout_type \<noteq> [] \<and> duration > 0 \<and> calories > 0 \<and> age > 0 \<and> heart_rate > 0
      then log_workout today workout_type duration calories age gender heart_rate body_temp f
      else (f, False))"

text \<open>
  \<^verbatim>\<open>pd.read_csv\<close>: a missing file raises \<^verbatim>\<open>FileNotFoundError\<close>, a file without a line
  \<^verbatim>\<open>EmptyDataError\<close>; otherwise the first line gives the column labels, whatever it
  holds, and the other lines are the rows. The model keeps the labels as written (pandas
  renames a repeated label). Every line the program writes has eight cells; a table whose
  lines differ in length from its first line is reported as \<^verbatim>\<open>ParserError\<close>.
\<close>

definition read_csv :: "csv_file \<Rightarrow> error + dataframe" where
  "read_csv f =
     (case f of
        None \<Rightarrow> Inl FileNotFoundError
      | Some [] \<Rightarrow> Inl EmptyDataError
      | Some (h # ls) \<Rightarrow>
          if list_all (\<lambda>l. length l = length h) ls then Inr \<lparr>columns = h, rows = ls\<rparr>
          else Inl ParserError)"

text \<open>
  \<^verbatim>\<open>pd.to_datetime\<close> on the text \<^verbatim>\<open>strftime\<close> writes: ten characters \<^verbatim>\<open>YYYY-MM-DD\<close> that
  name a calendar date. Any other text raises in the model (pandas knows more formats, which
  the program never writes), and so does a number, which the program never writes into a
  column labelled Date.
\<close>

definition digit_value :: "char \<Rightarrow> int option" where
  "digit_value c =
     (if CHR ''0'' \<le> c \<and> c \<le> CHR ''9'' then Some (int (of_char c) - 48) else None)"

fun number :: "int \<Rightarrow> string \<Rightarrow> int option" where
  "number acc [] = Some acc"
| "number acc (c # cs) =
     (case digit_value c of None \<Rightarrow> None | Some v \<Rightarrow> number (10 * acc + v) cs)"

definition parse_date :: "string \<Rightarrow> date option" where
  "parse_date s =
     (if length s = 10 \<and> s ! 4 = CHR ''-'' \<and> s ! 7 = CHR ''-'' then
        (case (number 0 (take 4 s), number 0 (take 2 (drop 5 s)), number 0 (drop 8 s)) of
           (Some y, Some m, Some d) \<Rightarrow>
             (let dt = \<lparr>year = y, month = m, day = d\<rparr>
              in if valid_date dt then Some dt else None)
         | _ \<Rightarrow> None)
      else None)"

fun to_datetime :: "cell \<Rightarrow> error + cell" where
  "to_datetime (Text s) =
     (case parse_date s of None \<Rightarrow> Inl ValueError | Some d \<Rightarrow> Inr (Timestamp d))"
| "to_datetime (Timestamp d) = Inr (Timestamp d)"
| "to_datetime (Number x) = Inl ValueError"

fun index_of :: "'a \<Rightarrow> 'a list \<Rightarrow> nat option" where
  "index_of x [] = None"
| "index_of x (y # ys) =
     (if x = y then Some 0 else (case index_of x ys of None \<Rightarrow> None | Some i \<Rightarrow> Some (Suc i)))"

text \<open>The assignment \<^verbatim>\<open>df['Date'] = pd.to_datetime(df['Date'])\<close>, row by row; the first
  cell that does not convert raises.\<close>

fun convert_column :: "nat \<Rightarrow> cell list list \<Rightarrow> error + cell list list" where
  "convert_column i [] = Inr []"
| "convert_column i (r # rs) =
     (case to_datetime (r ! i) of
        Inl e \<Rightarrow> Inl e
      | Inr c \<Rightarrow>
          (case convert_column i rs of
             Inl e \<Rightarrow> Inl e
           | Inr rs' \<Rightarrow> Inr (r[i := c] # rs')))"

text \<open>
  \<^verbatim>\<open>load_data\<close> (lines 47-53): only \<^verbatim>\<open>FileNotFoundError\<close> is caught; \<^verbatim>\<open>df['Date']\<close>
  raises \<^verbatim>\<open>KeyError\<close> when no column is labelled Date. In \<^verbatim>\<open>convert_column\<close> the index
  is within every row, since \<^verbatim>\<open>read_csv\<close> returns rows as long as the header.
\<close>

definition load_data :: "csv_file \<Rightarrow> error + dataframe" where
  "load_data f =
     (case read_csv f of
        Inl FileNotFoundError \<Rightarrow>
          Inr \<lparr>columns = map Text [''Date'', ''Workout Type'', ''Duration (mins)'',
                                    ''Calories Burned''],
               rows = []\<rparr>
      | Inl e \<Rightarrow> Inl e
      | Inr df \<Rightarrow>
          (case index_of (Text ''Date'') (columns df) of
             None \<Rightarrow> Inl KeyError
           | Some i \<Rightarrow>
               (case convert_column i (rows df) of
                  Inl e \<Rightarrow> Inl e
                | Inr rs \<Rightarrow> Inr (df\<lparr>rows := rs\<rparr>))))"









text \<open>
  The data-model invariant of a persisted record: a workout type that is not empty after
  trimming, a positive duration and positive calories. The records of a table are its
  lines other than the header line.
\<close>

definition record_invariant :: "line \<Rightarrow> bool" where
  "record_invariant l =
     (case l of
        [Text d, Text wt, Number dur, Number cal, Number a, Text g, Number hr, Number bt] \<Rightarrow>
          strip wt \<noteq> [] \<and> dur > 0 \<and> cal > 0
      | _ \<Rightarrow> False)"

definition records :: "csv_file \<Rightarrow> line list" where
  "records f = filter (\<lambda>l. l \<noteq> map Text HEADER) (case f of None \<Rightarrow> [] | Some ls \<Rightarrow> ls)"

definition table_invariant :: "csv_file \<Rightarrow> bool" where
  "table_invariant f = list_all record_invariant (records f)"

text \<open>
  The tables the program writes: starting without a file, every run of the script calls
  \<^verbatim>\<open>initialize_file\<close> and may reach the submit branch of \<^verbatim>\<open>main\<close>.
\<close>

inductive written_by_app :: "csv_file \<Rightarrow> bool" where
  absent: "written_by_app None"
| initialized: "written_by_app f \<Longrightarrow> written_by_app (initialize_file f)"
| submitted:
    "written_by_app f \<Longrightarrow>
     written_by_app
       (fst (submit_workout today workout_type duration calories age gender heart_rate
               body_temp f))"

section \<open>Aggregator\<close>





text \<open>
  The ISO calendar of a date, as CPython's \<^verbatim>\<open>date.isocalendar\<close> computes it (pandas'
  \<^verbatim>\<open>dt.isocalendar()\<close> gives the same three numbers): ISO year, week number, weekday.
\<close>

definition isoweek1monday :: "int \<Rightarrow> int" where
  "isoweek1monday y =
     (let firstday = ymd2ord \<lparr>year = y, month = 1, day = 1\<rparr>;
          firstweekday = (firstday + 6) mod 7;
          week1monday = firstday - firstweekday
      in if firstweekday > 3 then week1monday + 7 else week1monday)"

definition isocalendar :: "date \<Rightarrow> int \<times> int \<times> int" where
  "isocalendar d =
     (let y = year d;
          week1monday = isoweek1monday y;
          today = ymd2ord d;
          week = (today - week1monday) div 7;
          wd = (today - week1monday) mod 7
      in if week < 0 then
           (let y' = y - 1;
                week1monday' = isoweek1monday y'
            in (y', (today - week1monday') div 7 + 1, (today - week1monday') mod 7 + 1))
         else if week \<ge> 52 \<and> today \<ge> isoweek1monday (y + 1) then (y + 1, 1, wd + 1)
         else (y, week + 1, wd + 1))"

text \<open>
  The first half of \<^verbatim>\<open>analyze_fitness_data\<close> (lines 65-75): the column
  \<^verbatim>\<open>data['Week'] = data['Date'].dt.isocalendar().week\<close>, and the frame
  \<^verbatim>\<open>weekly_stats\<close> that \<^verbatim>\<open>groupby('Week').agg(...).reset_index()\<close> builds: one row per
  value of the column, in ascending order, with the two sums and the count of the rows
  that carry the value. The function returns early on fewer than two rows.
\<close>

definition Week :: "workout \<Rightarrow> int" where
  "Week r = fst (snd (isocalendar (Date r)))"

record week_row =
  week :: int
  calories_sum :: real
  duration_sum :: real
  workout_count :: nat

definition weekly_stats :: "workout list \<Rightarrow> week_row list" where
  "weekly_stats data =
     map (\<lambda>w. let g = filter (\<lambda>r. Week r = w) data
              in \<lparr>week = w,
                  calories_sum = sum_list (map Calories_Burned g),
                  duration_sum = sum_list (map Duration g),
                  workout_count = length g\<rparr>)
         (sort (remdups (map Week data)))"

definition analyze_weekly_stats :: "workout list \<Rightarrow> week_row list option" where
  "analyze_weekly_stats data = (if length data < 2 then None else Some (weekly_stats data))"

section \<open>Recommendation engine\<close>

text \<open>
  An instant is a number of nanoseconds on the scale on which midnight of the day with
  ordinal \<open>k\<close> is \<open>k * ns_per_day\<close>. The Date column holds midnights.
\<close>

definition ns_per_day :: int where
  "ns_per_day = 86400000000000"

definition timestamp :: "date \<Rightarrow> int" where
  "timestamp d = ymd2ord d * ns_per_day"

text \<open>
  Division of two \<^verbatim>\<open>numpy.float64\<close> means does not raise on a zero divisor: it gives an
  infinity or NaN, and a comparison with NaN is false.
\<close>

datatype float64 = Finite real | PosInf | NegInf | NaN

definition np_divide :: "real \<Rightarrow> real \<Rightarrow> float64" where
  "np_divide a b =
     (if b \<noteq> 0 then Finite (a / b)
      else if a > 0 then PosInf
      else if a < 0 then NegInf
      else NaN)"

fun np_less :: "real \<Rightarrow> float64 \<Rightarrow> bool" where
  "np_less x (Finite y) = (x < y)"
| "np_less x PosInf = True"
| "np_less x NegInf = False"
| "np_less x NaN = False"

definition FREQUENCY_ADVICE :: string where
  "FREQUENCY_ADVICE = ''Consider increasing workout frequency to at least 3 times per week''"

definition EFFICIENCY_ADVICE :: string where
  "EFFICIENCY_ADVICE =
     ''Try incorporating high-intensity intervals to improve workout efficiency''"

text \<open>
  \<^verbatim>\<open>get_personalized_recommendations(data, efficiency)\<close> (lines 89-102). The function has
  two parameters; the instant it reads from the system clock, \<^verbatim>\<open>pd.Timestamp.now()\<close>, is
  the argument \<open>clock\<close> of the model.
\<close>

definition weekly_workouts :: "int \<Rightarrow> workout list \<Rightarrow> nat" where
  "weekly_workouts clock data =
     length (filter (\<lambda>r. timestamp (Date r) \<ge> clock - 7 * ns_per_day) data)"

definition get_personalized_recommendations :: "int \<Rightarrow> workout list \<Rightarrow> real \<Rightarrow> string list" where
  "get_personalized_recommendations clock data efficiency =
     (if data = [] then []
      else let recommendations = [];
               recommendations =
                 (if weekly_workouts clock data < 3
                  then recommendations @ [FREQUENCY_ADVICE] else recommendations);
               recommendations =
                 (if np_less efficiency
                       (np_divide (mean (map Calories_Burned data)) (mean (map Duration data)))
                  then recommendations @ [EFFICIENCY_ADVICE] else recommendations)
           in recommendations)"

section \<open>Example tables\<close>

definition workout_on :: "date \<Rightarrow> string \<Rightarrow> real \<Rightarrow> real \<Rightarrow> workout" where
  "workout_on d wt dur cal =
     \<lparr>Date = d, Workout_Type = wt, Duration = dur, Calories_Burned = cal, Age = 28,
      Gender = ''Female'', Heart_Rate = 110, Body_Temperature = 36.8\<rparr>"

definition monday_2024_w10 :: date where
  "monday_2024_w10 = \<lparr>year = 2024, month = 3, day = 4\<rparr>"

definition monday_2024_w11 :: date where
  "monday_2024_w11 = \<lparr>year = 2024, month = 3, day = 11\<rparr>"

definition monday_2025_w10 :: date where
  "monday_2025_w10 = \<lparr>year = 2025, month = 3, day = 3\<rparr>"

definition today_2026 :: date where
  "today_2026 = \<lparr>year = 2026, month = 11, day = 3\<rparr>"

definition two_workouts :: "workout list" where
  "two_workouts =
     [workout_on monday_2024_w10 ''Cycling'' 10 100, workout_on monday_2024_w11 ''Yoga'' 20 180]"

definition three_workouts :: "workout list" where
  "three_workouts =
     [workout_on monday_2024_w10 ''Yoga'' 30 150, workout_on monday_2024_w10 ''Cycling'' 30 150,
      workout_on monday_2024_w10 ''Swimming'' 30 150]"



definition same_week_number :: "workout list" where
  "same_week_number =
     [workout_on monday_2024_w10 ''Yoga'' 30 150, workout_on monday_2025_w10 ''Cycling'' 30 350]"

section \<open>The predictor's properties\<close>

text \<open>
  C1. For every model and every input, the adjusted prediction is the base prediction
  \<open>predict model duration\<close> times 1.2 for gender Male, then times 1.15 for a heart rate
  above 120, then times 0.9 for a BMI above 25, multiplied in this order; there is no
  other factor and no clamping (a negative base stays negative). For Male, 130 and 30 it
  is \<open>base * 1.2 * 1.15 * 0.9\<close>.
\<close>

theorem predict_adjusted_factors:
  "predict_adjusted model duration gender heart_rate bmi =
     predict model duration * (if gender = ''Male'' then 1.2 else 1)
       * (if heart_rate > 120 then 1.15 else 1) * (if bmi > 25 then 0.9 else 1) \<and>
   predict_adjusted model duration ''Male'' 130 30 = predict model duration * 1.2 * 1.15 * 0.9"
  by (simp add: predict_adjusted_def)

text \<open>The Predictions page shows that value for the model \<^verbatim>\<open>train_model\<close> fitted, and
  nothing without a model.\<close>

lemma predicted_calories_fitted:
  "predicted_calories data duration gender heart_rate bmi =
     (case train_model data of
        None \<Rightarrow> None
      | Some (model, X) \<Rightarrow>
          Some (predict model duration * (if gender = ''Male'' then 1.2 else 1)
                  * (if heart_rate > 120 then 1.15 else 1) * (if bmi > 25 then 0.9 else 1)))"
  by (simp add: predicted_calories_def predict_adjusted_def split: option.splits)

subsection \<open>Least squares\<close>

text \<open>Sums over the rows, split by induction on the list.\<close>

lemma sum_residual:
  "(\<Sum>r\<leftarrow>rs. g r - (f r * c + i)) =
   sum_list (map g rs) - c * sum_list (map f rs) - real (length rs) * i"
  by (induction rs) (simp_all add: algebra_simps)

lemma sum_weighted_residual:
  "(\<Sum>r\<leftarrow>rs. (f r - a) * ((g r - b) - c * (f r - a))) =
   (\<Sum>r\<leftarrow>rs. (f r - a) * (g r - b)) - c * (\<Sum>r\<leftarrow>rs. (f r - a) * (f r - a))"
  for c :: real
  by (induction rs) (simp_all add: algebra_simps)

lemma sum_square_split:
  "(\<Sum>r\<leftarrow>rs. (e r + (p + q * f r)) * (e r + (p + q * f r))) =
   (\<Sum>r\<leftarrow>rs. e r * e r) + 2 * p * sum_list (map e rs) + 2 * q * (\<Sum>r\<leftarrow>rs. f r * e r)
     + (\<Sum>r\<leftarrow>rs. (p + q * f r) * (p + q * f r))"
  for p q :: real
  by (induction rs) (simp_all add: algebra_simps)

lemma sum_shift:
  "(\<Sum>r\<leftarrow>rs. f r * e r) = (\<Sum>r\<leftarrow>rs. (f r - a) * e r) + a * sum_list (map e rs)"
  for a :: real
  by (induction rs) (simp_all add: algebra_simps)

text \<open>When every \<open>x\<close> equals the mean, the cross products vanish with the squares.\<close>

lemma sum_squares_zero:
  assumes "(\<Sum>r\<leftarrow>rs. (f r - a) * (f r - a)) = (0::real)"
  shows "(\<Sum>r\<leftarrow>rs. (f r - a) * (g r - b)) = 0"
  using assms
proof (induction rs)
  case Nil
  then show ?case by simp
next
  case (Cons r rs)
  have rest: "0 \<le> (\<Sum>r\<leftarrow>rs. (f r - a) * (f r - a))"
    by (rule sum_list_nonneg) auto
  have head: "0 \<le> (f r - a) * (f r - a)" by simp
  from Cons.prems have "(f r - a) * (f r - a) + (\<Sum>r\<leftarrow>rs. (f r - a) * (f r - a)) = 0"
    by simp
  with rest head have z1: "(f r - a) * (f r - a) = 0"
    and z2: "(\<Sum>r\<leftarrow>rs. (f r - a) * (f r - a)) = 0"
    by linarith+
  from z1 have "f r - a = 0" by simp
  with Cons.IH [OF z2] show ?case by simp
qed

text \<open>The normal equations: the residuals of the fitted line sum to zero, and so do the
  residuals weighted by the durations.\<close>

lemma fit_normal_equations:
  assumes "data \<noteq> []"
  defines "m \<equiv> fit (map Duration data) (map Calories_Burned data)"
  shows "(\<Sum>r\<leftarrow>data. Calories_Burned r - predict m (Duration r)) = 0"
    and "(\<Sum>r\<leftarrow>data. Duration r * (Calories_Burned r - predict m (Duration r))) = 0"
proof -
  let ?n = "real (length data)"
  let ?mx = "mean (map Duration data)"
  let ?my = "mean (map Calories_Burned data)"
  let ?sxx = "(\<Sum>r\<leftarrow>data. (Duration r - ?mx) * (Duration r - ?mx))"
  let ?sxy = "(\<Sum>r\<leftarrow>data. (Duration r - ?mx) * (Calories_Burned r - ?my))"
  let ?e = "\<lambda>r. Calories_Burned r - predict m (Duration r)"
  have n: "?n \<noteq> 0" using assms by simp
  have zipped: "zip (map Duration data) (map Calories_Burned data) =
      map (\<lambda>r. (Duration r, Calories_Burned r)) data"
    by (induction data) simp_all
  have c: "coef m = (if ?sxx = 0 then 0 else ?sxy / ?sxx)"
    and i: "intercept m = ?my - ?mx * coef m"
    by (simp_all add: m_def fit_def Let_def zipped o_def)
  have nx: "?n * ?mx = sum_list (map Duration data)"
    and ny: "?n * ?my = sum_list (map Calories_Burned data)"
    using n by (simp_all add: mean_def)
  have "sum_list (map ?e data) =
        sum_list (map Calories_Burned data) - coef m * sum_list (map Duration data)
          - ?n * intercept m"
    unfolding predict_def by (rule sum_residual)
  also have "\<dots> = 0"
    by (simp add: i nx [symmetric] ny [symmetric] algebra_simps)
  finally show e0: "sum_list (map ?e data) = 0" .
  have e_eq: "?e r = (Calories_Burned r - ?my) - coef m * (Duration r - ?mx)" for r
    by (simp add: predict_def i algebra_simps)
  have "?sxy - coef m * ?sxx = 0"
  proof (cases "?sxx = 0")
    case True
    then have "?sxy = 0" by (rule sum_squares_zero)
    with True show ?thesis by simp
  next
    case False
    then show ?thesis by (simp add: c)
  qed
  then have "(\<Sum>r\<leftarrow>data. (Duration r - ?mx) * ?e r) = 0"
    unfolding e_eq by (simp add: sum_weighted_residual)
  then show "(\<Sum>r\<leftarrow>data. Duration r * ?e r) = 0"
    using e0 sum_shift [of Duration ?e data ?mx] by simp
qed

text \<open>No line has a smaller sum of squared residuals than the fitted one: the squared
  residuals of another line are those of the fitted line plus a sum of squares.\<close>

lemma fit_least_squares:
  assumes "data \<noteq> []"
  shows "residual_sum_squares (fit (map Duration data) (map Calories_Burned data)) data
           \<le> residual_sum_squares model' data"
proof -
  define m where "m = fit (map Duration data) (map Calories_Burned data)"
  let ?e = "\<lambda>r. Calories_Burned r - predict m (Duration r)"
  define p where "p = intercept m - intercept model'"
  define q where "q = coef m - coef model'"
  have e0: "sum_list (map ?e data) = 0" and ex: "(\<Sum>r\<leftarrow>data. Duration r * ?e r) = 0"
    using fit_normal_equations [OF assms] by (simp_all add: m_def)
  have split: "Calories_Burned r - predict model' (Duration r) = ?e r + (p + q * Duration r)"
    for r
    by (simp add: predict_def p_def q_def algebra_simps)
  have "residual_sum_squares model' data =
        (\<Sum>r\<leftarrow>data. (?e r + (p + q * Duration r)) * (?e r + (p + q * Duration r)))"
    by (simp only: residual_sum_squares_def split)
  also have "\<dots> = residual_sum_squares m data
        + (\<Sum>r\<leftarrow>data. (p + q * Duration r) * (p + q * Duration r))"
    by (simp add: sum_square_split e0 ex residual_sum_squares_def)
  finally have "residual_sum_squares model' data =
     residual_sum_squares m data + (\<Sum>r\<leftarrow>data. (p + q * Duration r) * (p + q * Duration r))" .
  moreover have "0 \<le> (\<Sum>r\<leftarrow>data. (p + q * Duration r) * (p + q * Duration r))"
    by (rule sum_list_nonneg) auto
  ultimately show ?thesis by (simp add: m_def)
qed

text \<open>The fitted line passes through the point of the two means.\<close>

lemma fit_centroid: "predict (fit X y) (mean X) = mean y"
  by (simp add: fit_def predict_def Let_def)

lemma pair_sum:
  fixes a b :: real
  assumes "{a, b} = {p, q}"
  shows "a + b = p + q"
  using assms by (auto simp: doubleton_eq_iff)

lemma two_rows_mean:
  assumes "length data = 2" and "set (map f data) = {p, q}"
  shows "mean (map f data) = (p + q) / 2"
proof -
  from assms(1) obtain a b where d: "data = [a, b]"
    by (cases data; cases "tl data") auto
  with assms(2) have "{f a, f b} = {p, q}" by simp
  then have "f a + f b = p + q" by (rule pair_sum)
  with d show ?thesis by (simp add: mean_def)
qed

text \<open>
  C2. \<^verbatim>\<open>train_model\<close> gives no model (the insufficient-data result) exactly when the
  frame has fewer than two rows. On two or more rows its model is a least-squares line
  of calories on duration: no line has a smaller sum of squared residuals. For two rows
  with durations 10 and 20 and calories 100 and 180 the model predicts 140 at 15.
\<close>

theorem train_model_least_squares:
  "(train_model data = None \<longleftrightarrow> length data < 2) \<and>
   (\<forall>model X. train_model data = Some (model, X) \<longrightarrow>
      (\<forall>model'. residual_sum_squares model data \<le> residual_sum_squares model' data) \<and>
      (length data = 2 \<and> set (map Duration data) = {10, 20} \<and>
       set (map Calories_Burned data) = {100, 180} \<longrightarrow> predict model 15 = 140))"
proof (intro conjI allI impI)
  show "train_model data = None \<longleftrightarrow> length data < 2"
    by (simp add: train_model_def Let_def)
next
  fix model X model'
  assume "train_model data = Some (model, X)"
  then have m: "model = fit (map Duration data) (map Calories_Burned data)"
    and ne: "data \<noteq> []"
    by (auto simp: train_model_def Let_def split: if_splits)
  show "residual_sum_squares model data \<le> residual_sum_squares model' data"
    unfolding m using ne by (rule fit_least_squares)
next
  fix model X
  assume t: "train_model data = Some (model, X)"
    and two: "length data = 2 \<and> set (map Duration data) = {10, 20} \<and>
       set (map Calories_Burned data) = {100, 180}"
  from t have m: "model = fit (map Duration data) (map Calories_Burned data)"
    by (auto simp: train_model_def Let_def split: if_splits)
  from two have "mean (map Duration data) = 15" and "mean (map Calories_Burned data) = 140"
    by (simp_all add: two_rows_mean)
  with fit_centroid [of "map Duration data" "map Calories_Burned data"]
  show "predict model 15 = 140" by (simp add: m)
qed

theorem train_model_least_squares_witness:
  "train_model [] = None \<and>
   train_model two_workouts = Some (\<lparr>coef = 8, intercept = 20\<rparr>, [10, 20]) \<and>
   predict \<lparr>coef = 8, intercept = 20\<rparr> 15 = 140 \<and>
   residual_sum_squares \<lparr>coef = 8, intercept = 20\<rparr> two_workouts
     \<le> residual_sum_squares \<lparr>coef = 7, intercept = 30\<rparr> two_workouts"
proof -
  have t: "train_model two_workouts = Some (\<lparr>coef = 8, intercept = 20\<rparr>, [10, 20])"
    by (simp add: train_model_def two_workouts_def workout_on_def fit_def mean_def)
  have s: "length two_workouts = 2 \<and> set (map Duration two_workouts) = {10, 20} \<and>
       set (map Calories_Burned two_workouts) = {100, 180}"
    by (simp add: two_workouts_def workout_on_def)
  have e: "train_model [] = None"
    using train_model_least_squares [of "[]"] by simp
  from train_model_least_squares [of two_workouts] t s e show ?thesis by blast
qed

section \<open>The record store's properties\<close>

subsection \<open>Trimming\<close>

text \<open>A string trims to the empty string exactly when all its characters are whitespace.\<close>
lemma strip_empty_iff: "strip s = [] \<longleftrightarrow> list_all isspace s"
proof
  assume "strip s = []"
  then have all: "\<forall>c\<in>set (dropWhile isspace s). isspace c"
    by (simp add: strip_def dropWhile_eq_Nil_conv)
  have "dropWhile isspace s = []"
  proof (cases "dropWhile isspace s")
    case Nil
    then show ?thesis .
  next
    case (Cons c cs)
    then have "\<not> isspace c" using hd_dropWhile [of isspace s] by simp
    moreover from all Cons have "isspace c" by simp
    ultimately show ?thesis by simp
  qed
  then have "\<forall>c\<in>set s. isspace c" by (simp only: dropWhile_eq_Nil_conv)
  then show "list_all isspace s" by (simp only: list_all_iff)
next
  assume "list_all isspace s"
  then have "\<forall>c\<in>set s. isspace c" by (simp only: list_all_iff)
  then have "dropWhile isspace s = []" by (simp only: dropWhile_eq_Nil_conv)
  then show "strip s = []" by (simp only: strip_def rev.simps dropWhile.simps)
qed

text \<open>
  C3. When the workout type is empty or holds only whitespace, \<^verbatim>\<open>log_workout\<close> returns
  \<^verbatim>\<open>False\<close> (its validation failure) and the table is left as it was: no line is
  written, and a file that did not exist is not created.
\<close>
theorem log_workout_blank_type:
  assumes "list_all isspace workout_type"
  shows "strip workout_type = [] \<and>
         log_workout today workout_type duration calories age gender heart_rate body_temp f
           = (f, False)"
  using assms by (simp add: strip_empty_iff log_workout_def)

theorem log_workout_blank_type_witness:
  "list_all isspace [CHR '' '', CHR 0x09, CHR 0x0A] \<and>
   log_workout today_2026 [CHR '' '', CHR 0x09, CHR 0x0A] 30 150 28 ''Female'' 110 36.8
       (Some [map Text HEADER]) = (Some [map Text HEADER], False) \<and>
   log_workout today_2026 [] 30 150 28 ''Female'' 110 36.8 None = (None, False)"
proof -
  have a: "list_all isspace [CHR '' '', CHR 0x09, CHR 0x0A]" by (simp add: isspace_def)
  have b: "list_all isspace []" by simp
  from log_workout_blank_type [OF a] log_workout_blank_type [OF b] a show ?thesis by simp
qed

subsection \<open>Loading without a file\<close>

text \<open>
  C5. Without a file, \<^verbatim>\<open>load_data\<close> returns an empty frame and raises nothing, but the
  frame has the four columns Date, Workout Type, Duration (mins) and Calories Burned, not
  the eight of the header; loading the table that \<^verbatim>\<open>initialize_file\<close> creates gives the
  empty frame with all eight.
\<close>
theorem load_data_missing_file:
  "load_data None =
     Inr \<lparr>columns = [Text ''Date'', Text ''Workout Type'', Text ''Duration (mins)'',
                      Text ''Calories Burned''], rows = []\<rparr> \<and>
   load_data (initialize_file None) = Inr \<lparr>columns = map Text HEADER, rows = []\<rparr> \<and>
   length HEADER = 8"
  by (simp add: load_data_def read_csv_def initialize_file_def HEADER_def)

subsection \<open>Dates as text\<close>








text \<open>The example date and the example workout types.\<close>

lemma strftime_today_2026: "strftime today_2026 = ''2026-11-03''"
  by code_simp

lemma strip_yoga: "strip ''Yoga'' = ''Yoga''"
  by code_simp


subsection \<open>Logging, then loading\<close>










subsection \<open>The invariant of the persisted records\<close>

lemma records_initialize_file: "records (initialize_file f) = records f"
  by (cases f) (simp_all add: records_def initialize_file_def)

lemma records_log_workout:
  assumes "strip workout_type \<noteq> []"
  shows "records (fst (log_workout today workout_type duration calories age gender heart_rate
                         body_temp f)) =
         records f @ [[Text (strftime today), Text workout_type, Number duration,
                       Number calories, Number age, Text gender, Number heart_rate,
                       Number body_temp]]"
  using assms by (cases f) (simp_all add: records_def log_workout_def HEADER_def)

lemma table_invariant_submit_workout:
  assumes "table_invariant f"
  shows "table_invariant (fst (submit_workout today workout_type duration calories age gender
                                 heart_rate body_temp f))"
proof (cases "workout_type \<noteq> [] \<and> duration > 0 \<and> calories > 0 \<and> age > 0 \<and> heart_rate > 0")
  case False
  then have "submit_workout today workout_type duration calories age gender heart_rate body_temp f
      = (f, False)"
    unfolding submit_workout_def by (rule if_not_P)
  with assms show ?thesis by simp
next
  case guard: True
  show ?thesis
  proof (cases "strip workout_type = []")
    case True
    with assms show ?thesis by (simp add: submit_workout_def log_workout_def)
  next
    case False
    with guard have "record_invariant [Text (strftime today), Text workout_type, Number duration,
                       Number calories, Number age, Text gender, Number heart_rate,
                       Number body_temp]"
      by (simp add: record_invariant_def)
    with assms guard False show ?thesis
      by (simp add: submit_workout_def table_invariant_def records_log_workout)
  qed
qed

text \<open>
  C10, as the code has it. Every record of a table that the program wrote (through
  \<^verbatim>\<open>initialize_file\<close> and the submit branch of \<^verbatim>\<open>main\<close>, the only caller of
  \<^verbatim>\<open>log_workout\<close>) has a workout type that is not empty after trimming, a positive
  duration and positive calories. The numbers are checked by the caller's guard, the
  workout type by \<^verbatim>\<open>log_workout\<close>.
\<close>

theorem written_by_app_invariant:
  assumes "written_by_app f"
  shows "table_invariant f"
  using assms
proof (induction rule: written_by_app.induct)
  case absent
  show ?case by (simp add: table_invariant_def records_def)
next
  case (initialized f)
  then show ?case by (simp add: table_invariant_def records_initialize_file)
next
  case (submitted f today workout_type duration calories age gender heart_rate body_temp)
  then show ?case by (simp add: table_invariant_submit_workout)
qed

theorem written_by_app_invariant_witness:
  "written_by_app (Some [map Text HEADER,
       [Text ''2026-11-03'', Text ''Yoga'', Number 30, Number 150, Number 28,
        Text ''Female'', Number 110, Number 36.8]]) \<and>
   table_invariant (Some [map Text HEADER,
       [Text ''2026-11-03'', Text ''Yoga'', Number 30, Number 150, Number 28,
        Text ''Female'', Number 110, Number 36.8]])"
proof -
  have "written_by_app (initialize_file None)"
    by (rule written_by_app.initialized) (rule written_by_app.absent)
  then have "written_by_app (fst (submit_workout today_2026 ''Yoga'' 30 150 28 ''Female'' 110 36.8
      (initialize_file None)))"
    by (rule written_by_app.submitted)
  moreover have "fst (submit_workout today_2026 ''Yoga'' 30 150 28 ''Female'' 110 36.8
      (initialize_file None)) = Some [map Text HEADER,
       [Text ''2026-11-03'', Text ''Yoga'', Number 30, Number 150, Number 28,
        Text ''Female'', Number 110, Number 36.8]]"
    by (simp add: submit_workout_def log_workout_def strip_yoga strftime_today_2026
        initialize_file_def)
  ultimately have w: "written_by_app (Some [map Text HEADER,
       [Text ''2026-11-03'', Text ''Yoga'', Number 30, Number 150, Number 28,
        Text ''Female'', Number 110, Number 36.8]])"
    by simp
  from written_by_app_invariant [OF w] w show ?thesis by simp
qed

text \<open>
  C10 as stated fails for \<^verbatim>\<open>log_workout\<close> on its own: it checks the workout type only,
  so a call with duration 0 and calories -5 succeeds and persists a record that breaks the
  invariant.
\<close>

theorem log_workout_unchecked_numbers_counterexample:
  "log_workout today_2026 ''Yoga'' 0 (- 5) 28 ''Female'' 110 36.8 (Some [map Text HEADER]) =
     (Some [map Text HEADER,
        [Text ''2026-11-03'', Text ''Yoga'', Number 0, Number (- 5), Number 28,
         Text ''Female'', Number 110, Number 36.8]], True) \<and>
   \<not> record_invariant [Text ''2026-11-03'', Text ''Yoga'', Number 0, Number (- 5), Number 28,
         Text ''Female'', Number 110, Number 36.8] \<and>
   \<not> table_invariant (Some [map Text HEADER,
        [Text ''2026-11-03'', Text ''Yoga'', Number 0, Number (- 5), Number 28,
         Text ''Female'', Number 110, Number 36.8]])"
  by (simp add: log_workout_def strip_yoga strftime_today_2026 record_invariant_def
      table_invariant_def records_def HEADER_def)

section \<open>The aggregator's properties\<close>

subsection \<open>The most common workout\<close>
















subsection \<open>The weekly statistics\<close>

lemma sort_remdups_two:
  fixes xs :: "int list"
  assumes "card (set xs) = 2"
  shows "\<exists>w1 w2. w1 < w2 \<and> set xs = {w1, w2} \<and> sort (remdups xs) = [w1, w2]"
proof -
  from assms obtain a b where ab: "set xs = {a, b}" and ne: "a \<noteq> b"
    by (auto simp: card_2_iff)
  have s: "sort (remdups xs) = sorted_list_of_set (set xs)"
    by (simp only: sorted_list_of_set_sort_remdups)
  show ?thesis
  proof (cases "a < b")
    case True
    then have "sorted_list_of_set {a, b} = [a, b]" by simp
    with True ab s show ?thesis by auto
  next
    case False
    with ne have lt: "b < a" by simp
    then have "sorted_list_of_set {b, a} = [b, a]" by simp
    moreover have "{a, b} = {b, a}" by auto
    ultimately show ?thesis using lt ab s by auto
  qed
qed

text \<open>
  C7, as the code has it. The key of a bucket is the ISO week number alone, without the
  ISO year. When the rows carry exactly two week numbers, \<^verbatim>\<open>weekly_stats\<close> has exactly
  two rows, in ascending order of the number; each holds the sum of the calories, the sum
  of the durations and the count of the rows with its own number, and that count is not
  zero: a number no row carries has no bucket.
\<close>

theorem weekly_stats_two_weeks:
  assumes "card (set (map Week data)) = 2"
  shows "\<exists>w1 w2. w1 < w2 \<and> set (map Week data) = {w1, w2} \<and>
           analyze_weekly_stats data =
             Some [\<lparr>week = w1,
                     calories_sum = (\<Sum>r\<leftarrow>filter (\<lambda>r. Week r = w1) data. Calories_Burned r),
                     duration_sum = (\<Sum>r\<leftarrow>filter (\<lambda>r. Week r = w1) data. Duration r),
                     workout_count = length (filter (\<lambda>r. Week r = w1) data)\<rparr>,
                   \<lparr>week = w2,
                     calories_sum = (\<Sum>r\<leftarrow>filter (\<lambda>r. Week r = w2) data. Calories_Burned r),
                     duration_sum = (\<Sum>r\<leftarrow>filter (\<lambda>r. Week r = w2) data. Duration r),
                     workout_count = length (filter (\<lambda>r. Week r = w2) data)\<rparr>] \<and>
           0 < length (filter (\<lambda>r. Week r = w1) data) \<and>
           0 < length (filter (\<lambda>r. Week r = w2) data)"
proof -
  from sort_remdups_two [OF assms] obtain w1 w2 where lt: "w1 < w2"
    and weeks: "set (map Week data) = {w1, w2}"
    and sorted: "sort (remdups (map Week data)) = [w1, w2]"
    by blast
  have "card (set (map Week data)) \<le> length (map Week data)" by (rule card_length)
  with assms have len: "\<not> length data < 2" by simp
  from weeks have "w1 \<in> Week ` set data" and "w2 \<in> Week ` set data" by auto
  then have n1: "0 < length (filter (\<lambda>r. Week r = w1) data)"
    and n2: "0 < length (filter (\<lambda>r. Week r = w2) data)"
    by (auto simp: filter_empty_conv)
  have "analyze_weekly_stats data =
             Some [\<lparr>week = w1,
                     calories_sum = (\<Sum>r\<leftarrow>filter (\<lambda>r. Week r = w1) data. Calories_Burned r),
                     duration_sum = (\<Sum>r\<leftarrow>filter (\<lambda>r. Week r = w1) data. Duration r),
                     workout_count = length (filter (\<lambda>r. Week r = w1) data)\<rparr>,
                   \<lparr>week = w2,
                     calories_sum = (\<Sum>r\<leftarrow>filter (\<lambda>r. Week r = w2) data. Calories_Burned r),
                     duration_sum = (\<Sum>r\<leftarrow>filter (\<lambda>r. Week r = w2) data. Duration r),
                     workout_count = length (filter (\<lambda>r. Week r = w2) data)\<rparr>]"
    using len by (simp add: analyze_weekly_stats_def weekly_stats_def sorted Let_def)
  with lt weeks n1 n2 show ?thesis by blast
qed

lemma week_2024_w10: "isocalendar monday_2024_w10 = (2024, 10, 1)"
  by code_simp

lemma week_2024_w11: "isocalendar monday_2024_w11 = (2024, 11, 1)"
  by code_simp

lemma week_2025_w10: "isocalendar monday_2025_w10 = (2025, 10, 1)"
  by code_simp

lemma weeks_same_week_number: "map Week same_week_number = [10, 10]"
  by (simp add: same_week_number_def workout_on_def Week_def week_2024_w10 week_2025_w10)

lemma weeks_two_workouts: "map Week two_workouts = [10, 11]"
  by (simp add: two_workouts_def workout_on_def Week_def week_2024_w10 week_2024_w11)

theorem weekly_stats_two_weeks_witness:
  "card (set (map Week two_workouts)) = 2 \<and>
   analyze_weekly_stats two_workouts =
     Some [\<lparr>week = 10, calories_sum = 100, duration_sum = 10, workout_count = 1\<rparr>,
           \<lparr>week = 11, calories_sum = 180, duration_sum = 20, workout_count = 1\<rparr>]"
proof -
  have c: "card (set (map Week two_workouts)) = 2"
    by (simp add: weeks_two_workouts)
  from weekly_stats_two_weeks [OF c] obtain w1 w2 where lt: "w1 < w2"
    and weeks: "set (map Week two_workouts) = {w1, w2}"
    and stats: "analyze_weekly_stats two_workouts =
             Some [\<lparr>week = w1,
                     calories_sum = (\<Sum>r\<leftarrow>filter (\<lambda>r. Week r = w1) two_workouts. Calories_Burned r),
                     duration_sum = (\<Sum>r\<leftarrow>filter (\<lambda>r. Week r = w1) two_workouts. Duration r),
                     workout_count = length (filter (\<lambda>r. Week r = w1) two_workouts)\<rparr>,
                   \<lparr>week = w2,
                     calories_sum = (\<Sum>r\<leftarrow>filter (\<lambda>r. Week r = w2) two_workouts. Calories_Burned r),
                     duration_sum = (\<Sum>r\<leftarrow>filter (\<lambda>r. Week r = w2) two_workouts. Duration r),
                     workout_count = length (filter (\<lambda>r. Week r = w2) two_workouts)\<rparr>]"
    by blast
  from weeks lt have w: "w1 = 10" "w2 = 11"
    by (auto simp: weeks_two_workouts doubleton_eq_iff)
  have "analyze_weekly_stats two_workouts =
     Some [\<lparr>week = 10, calories_sum = 100, duration_sum = 10, workout_count = 1\<rparr>,
           \<lparr>week = 11, calories_sum = 180, duration_sum = 20, workout_count = 1\<rparr>]"
    unfolding stats w
    by (simp add: two_workouts_def workout_on_def Week_def week_2024_w10 week_2024_w11)
  with c show ?thesis by simp
qed

text \<open>
  C7 as stated fails across years: 2024-03-04 and 2025-03-03 lie in two ISO calendar
  weeks, week 10 of 2024 and week 10 of 2025, and the code puts both rows into one bucket.
\<close>

theorem week_number_without_year_counterexample:
  "map (\<lambda>r. (fst (isocalendar (Date r)), fst (snd (isocalendar (Date r))))) same_week_number =
     [(2024, 10), (2025, 10)] \<and>
   analyze_weekly_stats same_week_number =
     Some [\<lparr>week = 10, calories_sum = 500, duration_sum = 60, workout_count = 2\<rparr>]"
proof -
  have "analyze_weekly_stats same_week_number =
     Some [\<lparr>week = 10, calories_sum = 500, duration_sum = 60, workout_count = 2\<rparr>]"
    unfolding analyze_weekly_stats_def weekly_stats_def weeks_same_week_number
    by (simp add: same_week_number_def workout_on_def Week_def week_2024_w10 week_2025_w10)
  moreover have "map (\<lambda>r. (fst (isocalendar (Date r)), fst (snd (isocalendar (Date r)))))
      same_week_number = [(2024, 10), (2025, 10)]"
    by (simp add: same_week_number_def workout_on_def week_2024_w10 week_2025_w10)
  ultimately show ?thesis by simp
qed

section \<open>The recommendations' properties\<close>

lemma advice_distinct: "FREQUENCY_ADVICE \<noteq> EFFICIENCY_ADVICE"
  by (simp add: FREQUENCY_ADVICE_def EFFICIENCY_ADVICE_def)

lemma np_divide_means:
  assumes "0 < n"
  shows "np_divide (a / n) (b / n) = np_divide a b"
  using assms by (simp add: np_divide_def zero_less_divide_iff divide_less_0_iff)

text \<open>
  C8. On a frame with a row, the efficiency advice is given exactly when the efficiency
  is below the sum of the calories divided by the sum of the durations (the quotient of
  the two means, which the code computes, is that ratio, also when the durations sum to
  zero); the mean of the rows' own ratios plays no part. On the empty frame the result is
  the empty list.
\<close>

theorem efficiency_advice_iff:
  "(data \<noteq> [] \<longrightarrow>
      (EFFICIENCY_ADVICE \<in> set (get_personalized_recommendations clock data efficiency) \<longleftrightarrow>
       np_less efficiency
         (np_divide (sum_list (map Calories_Burned data)) (sum_list (map Duration data))))) \<and>
   get_personalized_recommendations clock [] efficiency = []"
proof (intro conjI impI)
  assume ne: "data \<noteq> []"
  then have "0 < real (length data)" by simp
  then have "np_divide (mean (map Calories_Burned data)) (mean (map Duration data)) =
      np_divide (sum_list (map Calories_Burned data)) (sum_list (map Duration data))"
    unfolding mean_def length_map by (rule np_divide_means)
  with ne advice_distinct
  show "EFFICIENCY_ADVICE \<in> set (get_personalized_recommendations clock data efficiency) \<longleftrightarrow>
       np_less efficiency
         (np_divide (sum_list (map Calories_Burned data)) (sum_list (map Duration data)))"
    by (auto simp: get_personalized_recommendations_def Let_def)
next
  show "get_personalized_recommendations clock [] efficiency = []"
    by (simp add: get_personalized_recommendations_def)
qed

lemma weekly_workouts_three_at: "weekly_workouts (timestamp monday_2024_w11) three_workouts = 3"
  by code_simp

lemma weekly_workouts_three_after: "weekly_workouts (timestamp monday_2024_w11 + 1) three_workouts = 0"
  by code_simp

lemma three_workouts_ratio:
  "np_divide (mean (map Calories_Burned three_workouts)) (mean (map Duration three_workouts)) = Finite 5"
  by (simp add: three_workouts_def workout_on_def mean_def np_divide_def)

lemma three_workouts_sums:
  "np_divide (sum_list (map Calories_Burned three_workouts)) (sum_list (map Duration three_workouts)) = Finite 5"
  by (simp add: three_workouts_def workout_on_def np_divide_def)

lemma three_workouts_nonempty: "three_workouts \<noteq> []"
  by (simp add: three_workouts_def)

theorem efficiency_advice_iff_witness:
  "three_workouts \<noteq> [] \<and>
   np_less 4 (np_divide (sum_list (map Calories_Burned three_workouts))
                (sum_list (map Duration three_workouts))) \<and>
   EFFICIENCY_ADVICE \<in> set (get_personalized_recommendations (timestamp monday_2024_w11) three_workouts 4) \<and>
   EFFICIENCY_ADVICE \<notin> set (get_personalized_recommendations (timestamp monday_2024_w11) three_workouts 6)"
  using efficiency_advice_iff [of three_workouts "timestamp monday_2024_w11" 4]
    efficiency_advice_iff [of three_workouts "timestamp monday_2024_w11" 6]
    three_workouts_nonempty
  by (simp add: three_workouts_sums)

text \<open>
  The frequency advice. \<^verbatim>\<open>get_personalized_recommendations\<close> has no parameter for the
  current time; the instant it reads from the system clock decides the advice through the
  count of the rows dated at or after that instant minus seven days. On three rows dated
  2024-03-04 the advice is absent at midnight of 2024-03-11 and present a nanosecond
  later.
\<close>

lemma frequency_advice_iff:
  "FREQUENCY_ADVICE \<in> set (get_personalized_recommendations clock data efficiency) \<longleftrightarrow>
     data \<noteq> [] \<and>
     length (filter (\<lambda>r. clock - 7 * ns_per_day \<le> timestamp (Date r)) data) < 3"
  using advice_distinct
  by (auto simp: get_personalized_recommendations_def weekly_workouts_def Let_def)

lemma advice_changes_with_clock:
  "get_personalized_recommendations (timestamp monday_2024_w11) three_workouts 6 = [] \<and>
   get_personalized_recommendations (timestamp monday_2024_w11 + 1) three_workouts 6 =
     [FREQUENCY_ADVICE]"
  by (simp add: get_personalized_recommendations_def weekly_workouts_three_at
      weekly_workouts_three_after three_workouts_ratio three_workouts_nonempty Let_def)

end
